theory Spec2Isabelle
  imports Complex_Main
begin

section \<open>ShinySDR spectrum widgets: the coordinate model, averaging and waterfall history\<close>

text \<open>
  A shallow embedding of \<^verbatim>\<open>shinysdr/webstatic/client/widget.js\<close>: the helper
  \<^verbatim>\<open>mod\<close>, \<^verbatim>\<open>SpectrumView\<close> (zoom and scroll), the averaging of
  \<^verbatim>\<open>SpectrumPlot\<close>, and the history buffers, the colour interpolation and the
  drift compensation of \<^verbatim>\<open>WaterfallPlot\<close>.

  Numbers. A JavaScript number is an IEEE double. Finite numbers are modelled as
  \<open>real\<close>: the rounding of doubles (and of the \<^verbatim>\<open>Float32Array\<close> cells) is not
  modelled, so every equation below is one of exact arithmetic. \<^verbatim>\<open>NaN\<close> is modelled
  where the source tests for it or can produce it: a number that may be \<^verbatim>\<open>NaN\<close> is a
  \<open>real option\<close> (\<open>None\<close> is \<^verbatim>\<open>NaN\<close>), and the argument of
  \<^verbatim>\<open>interpolateColor\<close> ranges over \<open>jsnum\<close>, which also has the two infinities.
\<close>

subsection \<open>The helper \<^verbatim>\<open>mod\<close> (lines 31-33)\<close>

text \<open>\<^verbatim>\<open>Math.trunc\<close>: rounding toward zero, which is how \<^verbatim>\<open>%\<close> rounds its quotient.\<close>

definition js_trunc :: "real \<Rightarrow> int" where
  "js_trunc x = (if 0 \<le> x then \<lfloor>x\<rfloor> else \<lceil>x\<rceil>)"

text \<open>
  The operator \<^verbatim>\<open>%\<close> on finite operands: the remainder has the sign of the dividend.
  With a zero divisor JavaScript gives \<^verbatim>\<open>NaN\<close>; every call of \<^verbatim>\<open>mod\<close> in the file
  passes a modulus of at least 1 (\<^verbatim>\<open>1\<close>, \<^verbatim>\<open>historyCount\<close>, and \<^verbatim>\<open>sliceCount\<close>
  inside a loop that runs only when it is positive), and no statement below uses
  a zero divisor.
\<close>

definition js_rem :: "real \<Rightarrow> real \<Rightarrow> real" where
  "js_rem a b = a - b * of_int (js_trunc (a / b))"

text \<open>\<^verbatim>\<open>function mod(value, modulus) { return (value % modulus + modulus) % modulus; }\<close>\<close>

definition mod_js :: "real \<Rightarrow> real \<Rightarrow> real" where
  "mod_js v modulus = js_rem (js_rem v modulus + modulus) modulus"

subsection \<open>\<^verbatim>\<open>SpectrumView\<close> (lines 211-391)\<close>

text \<open>
  What \<^verbatim>\<open>prepare\<close> and \<^verbatim>\<open>changeZoom\<close> read from outside the view: the cells
  \<^verbatim>\<open>radio.input_rate\<close> and \<^verbatim>\<open>radio.source.freq\<close>, the container's
  \<^verbatim>\<open>offsetWidth\<close> and the length of \<^verbatim>\<open>radio.spectrum_fft.get()\<close>.
\<close>

record radio_env =
  input_rate :: real
  source_freq :: real
  offsetWidth :: real
  spectrum_fft_length :: nat

text \<open>
  The variables of the closure: the per-drawing-frame parameters, the zoom state, the
  container's \<^verbatim>\<open>scrollLeft\<close>, the width of \<^verbatim>\<open>scrollStub\<close> and the two storage
  items (as the numbers \<^verbatim>\<open>parseFloat\<close> reads back; \<open>None\<close> is an item that is
  absent or does not parse, that is \<^verbatim>\<open>NaN\<close>).
\<close>

record spectrum_view =
  bandwidth :: real
  centerFreq :: real
  leftFreq :: real
  pixelWidth :: real
  pixelsPerHertz :: real
  cacheScrollLeft :: real
  zoom :: real
  fractionalScroll :: real
  scrollLeft :: real
  scrollStubWidth :: real
  storage_zoom :: "real option"
  storage_scroll :: "real option"

text \<open>\<^verbatim>\<open>MAX_ZOOM_BINS\<close> (line 212).\<close>

definition MAX_ZOOM_BINS :: real where
  "MAX_ZOOM_BINS = 60"

text \<open>\<^verbatim>\<open>prepare\<close> (lines 242-254); the notification of the listeners is not modelled.\<close>

definition prepare :: "radio_env \<Rightarrow> spectrum_view \<Rightarrow> spectrum_view" where
  "prepare env s =
     s\<lparr>bandwidth := input_rate env,
       centerFreq := source_freq env,
       leftFreq := source_freq env - input_rate env / 2,
       pixelWidth := offsetWidth env,
       pixelsPerHertz := offsetWidth env / input_rate env * zoom s,
       cacheScrollLeft := scrollLeft s\<rparr>"

text \<open>\<^verbatim>\<open>parseFloat(item) || d\<close>: the default replaces \<^verbatim>\<open>NaN\<close> and zero.\<close>

definition or_default :: "real option \<Rightarrow> real \<Rightarrow> real" where
  "or_default item d = (case item of None \<Rightarrow> d | Some v \<Rightarrow> if v = 0 then d else v)"

text \<open>
  The browser owns \<^verbatim>\<open>container.scrollLeft\<close>: it quantizes the position to an integer
  (line 232) and keeps it within the scrollable range, which the width of
  \<^verbatim>\<open>scrollStub\<close> and the width of the container set. \<open>browser stub width v\<close> is what
  \<^verbatim>\<open>container.scrollLeft\<close> reads, with the stub \<open>stub\<close> wide in a container \<open>width\<close>
  wide, when the position wanted (assigned by the script, or held before the stub
  changed) is \<open>v\<close>. The function is a parameter of the model.
\<close>

type_synonym browser = "real \<Rightarrow> real \<Rightarrow> real \<Rightarrow> real"

text \<open>A browser for the examples: the position is clamped to \<open>[0, stub - width]\<close> and
  rounded down.\<close>

definition example_browser :: browser where
  "example_browser stub width v = of_int \<lfloor>max 0 (min (stub - width) v)\<rfloor>"

text \<open>The constructor (lines 233-256).\<close>

definition SpectrumView :: "browser \<Rightarrow> radio_env \<Rightarrow> real option \<Rightarrow> real option \<Rightarrow> spectrum_view" where
  "SpectrumView browser env item_zoom item_scroll =
     (let zoom0 = or_default item_zoom 1;
          initScroll = or_default item_scroll 0
      in prepare env
           \<lparr>bandwidth = 0, centerFreq = 0, leftFreq = 0, pixelWidth = 0,
            pixelsPerHertz = 0, cacheScrollLeft = 0,
            zoom = zoom0,
            fractionalScroll = mod_js initScroll 1,
            scrollLeft = browser (offsetWidth env * zoom0) (offsetWidth env) (of_int \<lfloor>initScroll\<rfloor>),
            scrollStubWidth = offsetWidth env * zoom0,
            storage_zoom = item_zoom,
            storage_scroll = item_scroll\<rparr>)"


text \<open>The accessors (lines 285-302).\<close>

definition leftVisibleFreq :: "spectrum_view \<Rightarrow> real" where
  "leftVisibleFreq s = leftFreq s + cacheScrollLeft s / pixelsPerHertz s"

definition rightVisibleFreq :: "spectrum_view \<Rightarrow> real" where
  "rightVisibleFreq s = leftFreq s + (cacheScrollLeft s + pixelWidth s) / pixelsPerHertz s"



text \<open>
  \<^verbatim>\<open>changeZoom\<close> (lines 304-342), in the order of the source. The parts are named after
  the variables they compute, so that the statements below can say ``not clamped''.

  \<open>maxZoom\<close>: lines 305-309.
\<close>

definition maxZoom :: "radio_env \<Rightarrow> spectrum_view \<Rightarrow> real" where
  "maxZoom env s =
     max 1 (max (bandwidth s / 100000) (real (spectrum_fft_length env) / MAX_ZOOM_BINS))"

text \<open>\<open>cursor01\<close>: lines 311-312.\<close>

definition cursor01 :: "spectrum_view \<Rightarrow> real \<Rightarrow> real" where
  "cursor01 s cursorX = (cursorX + fractionalScroll s) / pixelWidth s"

text \<open>The interpolation of lines 315 and 325.\<close>

definition freqAt01 :: "spectrum_view \<Rightarrow> real \<Rightarrow> real" where
  "freqAt01 s c = leftVisibleFreq s * (1 - c) + rightVisibleFreq s * c"

text \<open>\<open>cursorFreq\<close>, the ``frequency to keep under the cursor'': lines 311-315.\<close>

definition cursorFreq :: "spectrum_view \<Rightarrow> real \<Rightarrow> real" where
  "cursorFreq s cursorX = freqAt01 s (cursor01 s cursorX)"

text \<open>The zoom before it is clamped (line 319) and after (line 320).\<close>

definition unclampedZoom :: "real \<Rightarrow> spectrum_view \<Rightarrow> real" where
  "unclampedZoom delta s = zoom s * exp (- delta * 0.0005)"

definition clampedZoom :: "radio_env \<Rightarrow> real \<Rightarrow> spectrum_view \<Rightarrow> real" where
  "clampedZoom env delta s = min (maxZoom env s) (max 1 (unclampedZoom delta s))"

text \<open>The view after lines 318-323: the new zoom, then \<^verbatim>\<open>prepare()\<close>.\<close>

definition rezoomed :: "radio_env \<Rightarrow> real \<Rightarrow> spectrum_view \<Rightarrow> spectrum_view" where
  "rezoomed env delta s = prepare env (s\<lparr>zoom := clampedZoom env delta s\<rparr>)"

text \<open>
  The scroll position before it is clamped: the second argument of \<^verbatim>\<open>Math.min\<close> in
  line 333. \<^verbatim>\<open>container.scrollLeft\<close> is read in line 331, after the width of the stub
  has changed in line 329.
\<close>

definition unclampedScroll :: "browser \<Rightarrow> radio_env \<Rightarrow> real \<Rightarrow> real \<Rightarrow> spectrum_view \<Rightarrow> real" where
  "unclampedScroll browser env delta cursorX s =
     (let c = cursor01 s cursorX;
          s1 = rezoomed env delta s;
          unadjustedCursorFreq = freqAt01 s1 c;
          w = pixelWidth s1 * zoom s1;
          scroll = browser w (pixelWidth s1) (scrollLeft s1) + fractionalScroll s1
      in scroll + (cursorFreq s cursorX - unadjustedCursorFreq) * pixelsPerHertz s1)"

definition changeZoom :: "browser \<Rightarrow> radio_env \<Rightarrow> real \<Rightarrow> real \<Rightarrow> spectrum_view \<Rightarrow> spectrum_view" where
  "changeZoom browser env delta cursorX s =
     (let s1 = rezoomed env delta s;
          w = pixelWidth s1 * zoom s1;
          scroll = max 0 (min (w - pixelWidth s1) (unclampedScroll browser env delta cursorX s));
          sl = browser w (pixelWidth s1) scroll
      in s1\<lparr>scrollStubWidth := w,
             scrollLeft := sl,
             fractionalScroll := scroll - sl,
             storage_zoom := Some (zoom s1),
             storage_scroll := Some scroll\<rparr>)"

subsection \<open>The averaging of \<^verbatim>\<open>SpectrumPlot\<close> (lines 787-810)\<close>

text \<open>
  A frame as the FFT cell delivers it: \<^verbatim>\<open>fftBundle[0].freq\<close>, the centre frequency
  (\<open>None\<close> is \<^verbatim>\<open>NaN\<close>), and \<^verbatim>\<open>fftBundle[1]\<close>, the magnitudes.
\<close>

type_synonym fftBundle = "real option \<times> real list"

text \<open>\<^verbatim>\<open>a !== b\<close> on numbers: \<^verbatim>\<open>NaN\<close> differs from everything, itself too.\<close>

definition js_strict_neq :: "real option \<Rightarrow> real option \<Rightarrow> bool" where
  "js_strict_neq a b = (case (a, b) of (Some x, Some y) \<Rightarrow> x \<noteq> y | _ \<Rightarrow> True)"

definition isNaN :: "real option \<Rightarrow> bool" where
  "isNaN a = (a = None)"

text \<open>The common state of the plot: \<^verbatim>\<open>averageBuffer\<close> (\<open>None\<close> is \<^verbatim>\<open>null\<close>) and
  \<^verbatim>\<open>lastDrawnCenterFreq\<close> (initially \<^verbatim>\<open>NaN\<close>).\<close>

record spectrum_plot =
  averageBuffer :: "real list option"
  lastDrawnCenterFreq :: "real option"

definition SpectrumPlot :: spectrum_plot where
  "SpectrumPlot = \<lparr>averageBuffer = None, lastDrawnCenterFreq = None\<rparr>"

text \<open>The loop of lines 807-809, over \<open>i = 0, \<dots>, len - 1\<close>; bin \<open>i\<close> reads
  only bin \<open>i\<close>, so the loop is a map over the indices.\<close>

definition blend :: "real \<Rightarrow> real list \<Rightarrow> real list \<Rightarrow> real list" where
  "blend alpha avg buffer =
     map (\<lambda>i. avg ! i * (1 - alpha) + buffer ! i * alpha) [0..<length buffer]"

text \<open>
  \<^verbatim>\<open>commonNewData\<close> (lines 790-810); \<open>alpha\<close> is what \<^verbatim>\<open>avgAlphaCell.get()\<close> returns
  at this call. In each branch the buffer that the loop updates has the length of the
  frame.
\<close>

definition commonNewData :: "real \<Rightarrow> fftBundle \<Rightarrow> spectrum_plot \<Rightarrow> spectrum_plot" where
  "commonNewData alpha fftBundle s =
     (let buffer = snd fftBundle;
          bufferCenterFreq = fst fftBundle;
          len = length buffer
      in case averageBuffer s of
           None \<Rightarrow>
             \<lparr>averageBuffer = Some (blend alpha buffer buffer),
              lastDrawnCenterFreq = bufferCenterFreq\<rparr>
         | Some avg \<Rightarrow>
             if length avg \<noteq> len
                \<or> (js_strict_neq (lastDrawnCenterFreq s) bufferCenterFreq
                     \<and> \<not> isNaN bufferCenterFreq)
             then \<lparr>averageBuffer = Some (blend alpha buffer buffer),
                   lastDrawnCenterFreq = bufferCenterFreq\<rparr>
             else \<lparr>averageBuffer = Some (blend alpha avg buffer),
                   lastDrawnCenterFreq = lastDrawnCenterFreq s\<rparr>)"

text \<open>The 2D backend's \<^verbatim>\<open>newData\<close> (lines 1006-1008) is \<^verbatim>\<open>commonNewData\<close>.\<close>

definition spectrum2D_newData :: "real \<Rightarrow> fftBundle \<Rightarrow> spectrum_plot \<Rightarrow> spectrum_plot" where
  "spectrum2D_newData alpha fftBundle s = commonNewData alpha fftBundle s"


text \<open>\<^verbatim>\<open>averageBuffer[i]\<close>, for a buffer that exists and an index in range.\<close>

definition averageAt :: "spectrum_plot \<Rightarrow> nat \<Rightarrow> real" where
  "averageAt s i = (case averageBuffer s of Some avg \<Rightarrow> avg ! i | None \<Rightarrow> 0)"

subsection \<open>Numbers with \<^verbatim>\<open>NaN\<close> and the infinities\<close>

text \<open>
  The values of a JavaScript number for \<^verbatim>\<open>interpolateColor\<close>: \<^verbatim>\<open>NaN\<close>, the two
  infinities and the finite numbers (as reals; the sign of zero is not modelled).
  The operations follow IEEE 754 and ECMAScript's \<^verbatim>\<open>Math\<close>.
\<close>

datatype jsnum = NaN | NegInf | Fin real | PosInf

text \<open>An infinity times a finite number: \<^verbatim>\<open>NaN\<close> for zero, else by the sign.\<close>

definition signed_inf :: "real \<Rightarrow> jsnum" where
  "signed_inf a = (if a = 0 then NaN else if 0 < a then PosInf else NegInf)"

fun js_neg :: "jsnum \<Rightarrow> jsnum" where
  "js_neg NaN = NaN"
| "js_neg NegInf = PosInf"
| "js_neg PosInf = NegInf"
| "js_neg (Fin a) = Fin (- a)"

fun js_add :: "jsnum \<Rightarrow> jsnum \<Rightarrow> jsnum" where
  "js_add NaN _ = NaN"
| "js_add _ NaN = NaN"
| "js_add (Fin a) (Fin b) = Fin (a + b)"
| "js_add PosInf NegInf = NaN"
| "js_add NegInf PosInf = NaN"
| "js_add PosInf _ = PosInf"
| "js_add _ PosInf = PosInf"
| "js_add NegInf _ = NegInf"
| "js_add _ NegInf = NegInf"

definition js_sub :: "jsnum \<Rightarrow> jsnum \<Rightarrow> jsnum" where
  "js_sub a b = js_add a (js_neg b)"

fun js_mul :: "jsnum \<Rightarrow> jsnum \<Rightarrow> jsnum" where
  "js_mul NaN _ = NaN"
| "js_mul _ NaN = NaN"
| "js_mul (Fin a) (Fin b) = Fin (a * b)"
| "js_mul (Fin a) PosInf = signed_inf a"
| "js_mul (Fin a) NegInf = signed_inf (- a)"
| "js_mul PosInf (Fin b) = signed_inf b"
| "js_mul NegInf (Fin b) = signed_inf (- b)"
| "js_mul PosInf PosInf = PosInf"
| "js_mul NegInf NegInf = PosInf"
| "js_mul PosInf NegInf = NegInf"
| "js_mul NegInf PosInf = NegInf"

fun Math_floor :: "jsnum \<Rightarrow> jsnum" where
  "Math_floor (Fin a) = Fin (of_int \<lfloor>a\<rfloor>)"
| "Math_floor x = x"

fun Math_min :: "jsnum \<Rightarrow> jsnum \<Rightarrow> jsnum" where
  "Math_min NaN _ = NaN"
| "Math_min _ NaN = NaN"
| "Math_min NegInf _ = NegInf"
| "Math_min _ NegInf = NegInf"
| "Math_min PosInf b = b"
| "Math_min a PosInf = a"
| "Math_min (Fin a) (Fin b) = Fin (min a b)"

fun Math_max :: "jsnum \<Rightarrow> jsnum \<Rightarrow> jsnum" where
  "Math_max NaN _ = NaN"
| "Math_max _ NaN = NaN"
| "Math_max PosInf _ = PosInf"
| "Math_max _ PosInf = PosInf"
| "Math_max NegInf b = b"
| "Math_max a NegInf = a"
| "Math_max (Fin a) (Fin b) = Fin (max a b)"

text \<open>\<^verbatim>\<open>Math.round\<close> on a finite number: the nearest integer, a tie going up.\<close>

definition Math_round :: "real \<Rightarrow> int" where
  "Math_round x = \<lfloor>x + 1 / 2\<rfloor>"

text \<open>What a \<^verbatim>\<open>Uint8ClampedArray\<close> (the data of an \<^verbatim>\<open>ImageData\<close>, and
  \<^verbatim>\<open>intConversionBuffer\<close>) keeps of a number stored into it: \<^verbatim>\<open>NaN\<close> becomes 0, the
  value is clamped to 0..255 and rounded to the nearest integer, a tie going to the even
  one.\<close>

definition round_half_even :: "real \<Rightarrow> int" where
  "round_half_even x =
     (let f = \<lfloor>x\<rfloor>
      in if x - of_int f < 1 / 2 then f
         else if 1 / 2 < x - of_int f then f + 1
         else if even f then f else f + 1)"

fun toUint8Clamped :: "jsnum \<Rightarrow> nat" where
  "toUint8Clamped NaN = 0"
| "toUint8Clamped NegInf = 0"
| "toUint8Clamped PosInf = 255"
| "toUint8Clamped (Fin a) = (if a \<le> 0 then 0 else if 255 \<le> a then 255 else nat (round_half_even a))"

subsection \<open>\<^verbatim>\<open>interpolateColor\<close> (lines 1049-1070)\<close>

datatype js_error = TypeError

definition colors :: "(real \<times> real \<times> real) list" where
  "colors = [(0, 0, 0), (0, 0, 255), (0, 200, 255), (255, 255, 0), (255, 0, 0)]"

definition colorCountForScale :: real where
  "colorCountForScale = real (length colors) - 1"

definition colorCountForIndex :: real where
  "colorCountForIndex = real (length colors) - 2"

text \<open>
  \<^verbatim>\<open>colors[index]\<close> for a number: the entry when the number is an integer within the
  array, else \<^verbatim>\<open>undefined\<close> (\<open>None\<close>), as for \<^verbatim>\<open>NaN\<close> and the infinities.
\<close>

definition colors_at :: "jsnum \<Rightarrow> (real \<times> real \<times> real) option" where
  "colors_at index =
     (case index of
        Fin a \<Rightarrow>
          if 0 \<le> a \<and> a = of_int \<lfloor>a\<rfloor> \<and> nat \<lfloor>a\<rfloor> < length colors
          then Some (colors ! nat \<lfloor>a\<rfloor>) else None
      | _ \<Rightarrow> None)"

text \<open>\<open>colorIndex\<close>, lines 1060-1061.\<close>

definition colorIndex :: "jsnum \<Rightarrow> jsnum" where
  "colorIndex v =
     Math_max (Fin 0) (Math_min (Fin colorCountForIndex) (Math_floor (js_mul v (Fin colorCountForScale))))"

text \<open>One colour component, lines 1066-1068.\<close>

definition mix :: "real \<Rightarrow> real \<Rightarrow> jsnum \<Rightarrow> jsnum \<Rightarrow> jsnum" where
  "mix c0 c1 colorInterp0 colorInterp1 =
     js_add (js_mul (Fin c0) colorInterp0) (js_mul (Fin c1) colorInterp1)"

text \<open>
  \<^verbatim>\<open>interpolateColor(value, outArray, base)\<close>. \<open>store\<close> is the conversion of the
  typed array \<^verbatim>\<open>outArray\<close>. Reading \<^verbatim>\<open>color0[0]\<close> or \<^verbatim>\<open>color1[0]\<close> of an
  \<^verbatim>\<open>undefined\<close> colour throws a \<^verbatim>\<open>TypeError\<close>, before the first write. A write
  beyond the end of a typed array is ignored, as by the list update.
\<close>

definition interpolateColor :: "(jsnum \<Rightarrow> 'a) \<Rightarrow> jsnum \<Rightarrow> 'a list \<Rightarrow> nat \<Rightarrow> js_error + 'a list" where
  "interpolateColor store v outArray base =
     (let value = js_mul v (Fin colorCountForScale);
          colorInterp1 = js_sub value (colorIndex v);
          colorInterp0 = js_sub (Fin 1) colorInterp1;
          color0 = colors_at (colorIndex v);
          color1 = colors_at (js_add (colorIndex v) (Fin 1))
      in case color0 of
           None \<Rightarrow> Inl TypeError
         | Some (r0, g0, b0) \<Rightarrow>
             (case color1 of
                None \<Rightarrow> Inl TypeError
              | Some (r1, g1, b1) \<Rightarrow>
                  Inr (outArray
                        [base := store (mix r0 r1 colorInterp0 colorInterp1),
                         base + 1 := store (mix g0 g1 colorInterp0 colorInterp1),
                         base + 2 := store (mix b0 b1 colorInterp0 colorInterp1),
                         base + 3 := store (Fin 255)])))"

subsection \<open>The GPU backend of \<^verbatim>\<open>SpectrumPlot\<close> (lines 919-955)\<close>

text \<open>\<^verbatim>\<open>view.minLevel\<close> and \<^verbatim>\<open>view.maxLevel\<close> (lines 273-274).\<close>

definition minLevel :: real where
  "minLevel = - 60"

definition maxLevel :: real where
  "maxLevel = 30"

text \<open>The state of \<^verbatim>\<open>buildGL\<close>: \<^verbatim>\<open>fftSize\<close>, \<^verbatim>\<open>intConversionBuffer\<close>
  (\<open>None\<close> before it is allocated) and the one row of \<^verbatim>\<open>bufferTexture\<close>.\<close>

record spectrumGL =
  sgl_fftSize :: nat
  sgl_intConversionBuffer :: "nat list option"
  sgl_bufferTexture :: "nat list"

definition spectrumGL_build :: "nat \<Rightarrow> spectrumGL" where
  "spectrumGL_build initialLength =
     \<lparr>sgl_fftSize = max 1 initialLength,
      sgl_intConversionBuffer = None,
      sgl_bufferTexture = replicate (max 1 initialLength) 0\<rparr>"

text \<open>\<^verbatim>\<open>newData\<close> of the GPU backend (lines 922-955), on the common state and its own.\<close>

definition spectrumGL_newData ::
    "real \<Rightarrow> fftBundle \<Rightarrow> spectrum_plot \<times> spectrumGL \<Rightarrow> spectrum_plot \<times> spectrumGL" where
  "spectrumGL_newData alpha fftBundle st =
     (let buffer = snd fftBundle; p = fst st; g = snd st
      in if length buffer = 0 then st
         else
           let g1 = (if length buffer \<noteq> sgl_fftSize g \<or> sgl_intConversionBuffer g = None
                     then g\<lparr>sgl_fftSize := length buffer,
                            sgl_bufferTexture := replicate (length buffer) 0,
                            sgl_intConversionBuffer := Some (replicate (length buffer) 0)\<rparr>
                     else g);
               p1 = commonNewData alpha fftBundle p;
               cscale = 255 / (maxLevel - minLevel);
               converted = map (\<lambda>i. toUint8Clamped (Fin ((averageAt p1 i - minLevel) * cscale)))
                             [0..<sgl_fftSize g1]
           in (p1, g1\<lparr>sgl_intConversionBuffer := Some converted,
                      sgl_bufferTexture := converted\<rparr>))"

subsection \<open>\<^verbatim>\<open>WaterfallPlot\<close>: what both backends share (lines 1043-1091)\<close>

text \<open>\<^verbatim>\<open>historyCount\<close> (lines 1073-1075); the argument is the height of the element when
  it is a canvas, else 0.\<close>

definition historyCount :: "nat \<Rightarrow> nat" where
  "historyCount elementHeight = max 1024 elementHeight"

text \<open>\<^verbatim>\<open>mod\<close> applied to array indices.\<close>

definition mod_index :: "nat \<Rightarrow> nat \<Rightarrow> nat" where
  "mod_index v modulus = nat \<lfloor>mod_js (real v) (real modulus)\<rfloor>"

text \<open>What a draw reads from the view and the layout: \<^verbatim>\<open>view.getCenterFreq()\<close>,
  \<^verbatim>\<open>view.getBandwidth()\<close> and \<^verbatim>\<open>canvas.offsetHeight\<close>.\<close>

record waterfall_env =
  viewCenterFreq :: real
  viewBandwidth :: real
  canvasOffsetHeight :: nat

subsection \<open>The 2D backend of \<^verbatim>\<open>WaterfallPlot\<close> (lines 1408-1502)\<close>

text \<open>
  The state: the canvas size, \<^verbatim>\<open>cleared\<close>, the circular buffer \<^verbatim>\<open>slices\<close> of pairs
  of an image row (the bytes of its \<^verbatim>\<open>ImageData\<close>) and a centre frequency,
  \<^verbatim>\<open>slicePtr\<close>, \<^verbatim>\<open>lastDrawnCenterFreq\<close> (initially \<^verbatim>\<open>NaN\<close>) and \<^verbatim>\<open>dataToDraw\<close>.
\<close>

record waterfall2D =
  canvasWidth :: nat
  canvasHeight :: nat
  cleared :: bool
  slices :: "(nat list \<times> real option) list"
  slicePtr :: nat
  wf_lastDrawnCenterFreq :: "real option"
  dataToDraw :: "fftBundle option"

definition build2D :: "nat \<Rightarrow> nat \<Rightarrow> waterfall2D" where
  "build2D width height =
     \<lparr>canvasWidth = width, canvasHeight = height, cleared = True, slices = [], slicePtr = 0,
      wf_lastDrawnCenterFreq = None, dataToDraw = None\<rparr>"

text \<open>\<^verbatim>\<open>commonBeforeDraw\<close> (lines 1079-1091), as far as it changes the state.\<close>

definition commonBeforeDraw :: "nat \<Rightarrow> waterfall_env \<Rightarrow> waterfall2D \<Rightarrow> waterfall2D" where
  "commonBeforeDraw hc env s =
     (let newHeight = min (canvasOffsetHeight env) hc
      in if newHeight \<noteq> canvasHeight s then s\<lparr>canvasHeight := newHeight, cleared := True\<rparr> else s)"

text \<open>\<^verbatim>\<open>ctx.createImageData(w, 1)\<close>: four zero bytes a pixel.\<close>

definition createImageData :: "nat \<Rightarrow> nat list" where
  "createImageData w = replicate (4 * w) 0"

text \<open>
  The body of the loop of lines 1463-1468 for the column \<open>x\<close>, on the image data so
  far; a \<^verbatim>\<open>TypeError\<close> of \<^verbatim>\<open>interpolateColor\<close> ends the loop.
\<close>

definition renderStep ::
    "real list \<Rightarrow> real \<Rightarrow> real \<Rightarrow> real \<Rightarrow> js_error + nat list \<Rightarrow> nat \<Rightarrow> js_error + nat list" where
  "renderStep buffer xScale cScale cZero acc x =
     (case acc of
        Inl e \<Rightarrow> Inl e
      | Inr data \<Rightarrow>
          (let base = x * 4;
               i = nat (Math_round (real x * xScale));
               colorVal = buffer ! i * cScale + cZero
           in interpolateColor toUint8Clamped (Fin colorVal) data base))"

text \<open>Lines 1458-1468: the colours of the frame are written into \<open>data\<close>; \<open>w\<close> is
  \<^verbatim>\<open>buffer.length\<close>.\<close>

definition renderSlice :: "real list \<Rightarrow> nat list \<Rightarrow> js_error + nat list" where
  "renderSlice buffer data =
     (let w = length buffer;
          xScale = real (length buffer) / real w;
          cScale = 1 / (maxLevel - minLevel);
          cZero = 1 - maxLevel * cScale
      in foldl (renderStep buffer xScale cScale cZero) (Inr data) [0..<w])"


definition colorVal :: "real \<Rightarrow> real" where
  "colorVal b = b * (1 / (maxLevel - minLevel)) + (1 - maxLevel * (1 / (maxLevel - minLevel)))"


text \<open>The calls on the canvas that a draw makes, in order. Of \<^verbatim>\<open>putImageData\<close> the
  image, \<open>dx\<close> (\<open>None\<close> is \<^verbatim>\<open>NaN\<close>) and \<open>dy\<close> are kept.\<close>

datatype paint =
    DrawImageScroll
  | FillRect nat
  | PutImageData "nat list" "real option" nat
  | FillRectBelow

text \<open>
  \<^verbatim>\<open>Math.round(offset * offsetScale)\<close> with \<^verbatim>\<open>offset = freq - viewCenterFreq\<close>
  (lines 1476-1477 and 1485, 1493). \<^verbatim>\<open>offsetScale\<close> is \<^verbatim>\<open>NaN\<close> when \<^verbatim>\<open>w\<close> is
  \<^verbatim>\<open>undefined\<close>; a zero bandwidth (an infinite scale) is not modelled.
\<close>

definition putX :: "real option \<Rightarrow> real \<Rightarrow> real option \<Rightarrow> real option" where
  "putX freq viewFreq offsetScale =
     (case freq of
        None \<Rightarrow> None
      | Some f \<Rightarrow>
          (case offsetScale of
             None \<Rightarrow> None
           | Some k \<Rightarrow> Some (of_int (Math_round ((f - viewFreq) * k)))))"

text \<open>Lines 1473-1477: scroll the canvas and paint the newest slice.\<close>

definition paintNewest :: "nat list \<Rightarrow> real option \<Rightarrow> real \<Rightarrow> real option \<Rightarrow> paint list" where
  "paintNewest ibuf bufferCenterFreq viewFreq offsetScale =
     [DrawImageScroll, PutImageData ibuf (putX bufferCenterFreq viewFreq offsetScale) 0]"

text \<open>Lines 1480-1495: paint all slices, the newest first, until the canvas is full.\<close>

definition paintAll ::
    "(nat list \<times> real option) list \<Rightarrow> nat \<Rightarrow> nat \<Rightarrow> real \<Rightarrow> real option \<Rightarrow> paint list" where
  "paintAll sl ptr height viewFreq offsetScale =
     (let sliceCount = length sl
      in concat
           (map (\<lambda>i. let slice = sl ! mod_index (i + ptr) sliceCount;
                         y = sliceCount - i
                     in [FillRect y, PutImageData (fst slice) (putX (snd slice) viewFreq offsetScale) y])
              (takeWhile (\<lambda>i. \<not> height \<le> sliceCount - i) (rev [0..<sliceCount])))
         @ [FillRectBelow])"

text \<open>
  Lines 1471-1499: the drawing, for the slice just written (\<open>ibuf\<close>, \<^verbatim>\<open>undefined\<close>
  without data) and \<open>w\<close> (\<^verbatim>\<open>undefined\<close> without data, so that \<^verbatim>\<open>offsetScale\<close> is
  \<^verbatim>\<open>NaN\<close>).
\<close>

definition drawPhase ::
    "waterfall_env \<Rightarrow> (nat list \<times> real option) option \<Rightarrow> nat option \<Rightarrow> waterfall2D
       \<Rightarrow> waterfall2D \<times> paint list" where
  "drawPhase env newest w s =
     (let viewFreq = viewCenterFreq env;
          offsetScale = (case w of None \<Rightarrow> None | Some n \<Rightarrow> Some (real n / viewBandwidth env))
      in case newest of
           Some (ibuf, bufferCenterFreq) \<Rightarrow>
             if \<not> js_strict_neq (wf_lastDrawnCenterFreq s) (Some viewFreq) \<and> \<not> cleared s
             then (s\<lparr>dataToDraw := None, cleared := False\<rparr>,
                   paintNewest ibuf bufferCenterFreq viewFreq offsetScale)
             else (s\<lparr>wf_lastDrawnCenterFreq := Some viewFreq, dataToDraw := None, cleared := False\<rparr>,
                   paintAll (slices s) (slicePtr s) (canvasHeight s) viewFreq offsetScale)
         | None \<Rightarrow>
             if cleared s \<or> js_strict_neq (wf_lastDrawnCenterFreq s) (Some viewFreq)
             then (s\<lparr>wf_lastDrawnCenterFreq := Some viewFreq, dataToDraw := None, cleared := False\<rparr>,
                   paintAll (slices s) (slicePtr s) (canvasHeight s) viewFreq offsetScale)
             else (s\<lparr>dataToDraw := None, cleared := False\<rparr>, []))"

text \<open>
  \<^verbatim>\<open>performDraw\<close> (lines 1422-1500). With a frame of length zero it returns at line
  1444, after the reallocation of lines 1433-1440. Reading \<^verbatim>\<open>record[0]\<close> of a slot
  that does not exist would throw.
\<close>

definition performDraw ::
    "nat \<Rightarrow> waterfall_env \<Rightarrow> waterfall2D \<Rightarrow> js_error + waterfall2D \<times> paint list" where
  "performDraw hc env s0 =
     (let s1 = commonBeforeDraw hc env s0
      in case dataToDraw s1 of
           None \<Rightarrow> Inr (drawPhase env None None s1)
         | Some (bufferCenterFreq, buffer) \<Rightarrow>
             let w = length buffer;
                 s2 = (if canvasWidth s1 \<noteq> w
                       then s1\<lparr>canvasWidth := w, cleared := True, slices := [], slicePtr := 0\<rparr>
                       else s1)
             in if w = 0 then Inr (s2, [])
                else if length (slices s2) < hc
                then (case renderSlice buffer (createImageData w) of
                        Inl e \<Rightarrow> Inl e
                      | Inr ibuf \<Rightarrow>
                          Inr (drawPhase env (Some (ibuf, bufferCenterFreq)) (Some w)
                                 (s2\<lparr>slices := slices s2 @ [(ibuf, bufferCenterFreq)]\<rparr>)))
                else if \<not> slicePtr s2 < length (slices s2) then Inl TypeError
                else (case renderSlice buffer (fst (slices s2 ! slicePtr s2)) of
                        Inl e \<Rightarrow> Inl e
                      | Inr ibuf \<Rightarrow>
                          Inr (drawPhase env (Some (ibuf, bufferCenterFreq)) (Some w)
                                 (s2\<lparr>slices := (slices s2)[slicePtr s2 := (ibuf, bufferCenterFreq)],
                                     slicePtr := mod_index (slicePtr s2 + 1) hc\<rparr>))))"

text \<open>\<^verbatim>\<open>newData\<close> of the 2D backend (lines 1418-1421).\<close>

definition waterfall2D_newData ::
    "nat \<Rightarrow> waterfall_env \<Rightarrow> fftBundle \<Rightarrow> waterfall2D \<Rightarrow> js_error + waterfall2D \<times> paint list" where
  "waterfall2D_newData hc env fftBundle s = performDraw hc env (s\<lparr>dataToDraw := Some fftBundle\<rparr>)"

text \<open>A sequence of ingests, each with the view of its moment; an exception ends it.\<close>

fun waterfall2D_ingest ::
    "nat \<Rightarrow> (waterfall_env \<times> fftBundle) list \<Rightarrow> waterfall2D \<Rightarrow> js_error + waterfall2D" where
  "waterfall2D_ingest hc [] s = Inr s"
| "waterfall2D_ingest hc (ef # rest) s =
     (case waterfall2D_newData hc (fst ef) (snd ef) s of
        Inl e \<Rightarrow> Inl e
      | Inr r \<Rightarrow> waterfall2D_ingest hc rest (fst r))"


subsection \<open>The GPU backend of \<^verbatim>\<open>WaterfallPlot\<close> (lines 1106-1406)\<close>

text \<open>
  A row of \<^verbatim>\<open>bufferTexture\<close> and a texel of \<^verbatim>\<open>historyFreqTexture\<close>: floats with the
  extension \<^verbatim>\<open>OES_texture_float\<close>, else bytes (a luminance byte a bin; the four bytes
  R, G, B, A of a frequency).
\<close>

datatype texrow = FloatRow "real list" | ByteRow "nat list"

datatype freqtexel = FloatFreq "real option" | ByteFreq nat nat nat nat

record waterfallGL =
  gl_fftSize :: nat
  gl_bufferTexture :: "texrow list"
  gl_historyFreqTexture :: "freqtexel list"
  gl_slicePtr :: nat
  gl_intConversionBuffer :: bool
  gl_canvasWidth :: nat
  gl_cleared :: bool

text \<open>\<^verbatim>\<open>configureTexture\<close> (lines 1225-1287): both textures anew, \<open>hc\<close> rows each.\<close>

definition configureTexture :: "bool \<Rightarrow> nat \<Rightarrow> waterfallGL \<Rightarrow> waterfallGL" where
  "configureTexture useFloatTexture hc s =
     (if useFloatTexture
      then s\<lparr>gl_bufferTexture := replicate hc (FloatRow (replicate (gl_fftSize s) (- 100))),
             gl_historyFreqTexture := replicate hc (FloatFreq (Some (- 1000000)))\<rparr>
      else s\<lparr>gl_bufferTexture := replicate hc (ByteRow (replicate (gl_fftSize s) 0)),
             gl_historyFreqTexture := replicate hc (ByteFreq 0 0 0 0)\<rparr>)"

definition buildGL :: "bool \<Rightarrow> nat \<Rightarrow> nat \<Rightarrow> nat \<Rightarrow> waterfallGL" where
  "buildGL useFloatTexture hc initialLength width =
     configureTexture useFloatTexture hc
       \<lparr>gl_fftSize = max 1 initialLength, gl_bufferTexture = [], gl_historyFreqTexture = [],
        gl_slicePtr = 0, gl_intConversionBuffer = False, gl_canvasWidth = width,
        gl_cleared = True\<rparr>"

text \<open>
  \<^verbatim>\<open>ToInt32\<close>, which \<^verbatim>\<open>>>\<close> applies to its left operand: \<^verbatim>\<open>NaN\<close> gives 0, else the
  number is truncated and reduced modulo \<open>2^32\<close> into \<open>[-2^31, 2^31)\<close>.
\<close>

definition ToInt32 :: "real option \<Rightarrow> int" where
  "ToInt32 x =
     (case x of
        None \<Rightarrow> 0
      | Some a \<Rightarrow> (let m = js_trunc a mod 2 ^ 32 in if 2 ^ 31 \<le> m then m - 2 ^ 32 else m))"

text \<open>\<^verbatim>\<open>(x >> k) & 0xFF\<close> (lines 1372-1375): the arithmetic shift is the floor division,
  and the mask keeps the value modulo 256.\<close>

definition shr_and_FF :: "real option \<Rightarrow> nat \<Rightarrow> nat" where
  "shr_and_FF x k = nat ((ToInt32 x div 2 ^ k) mod 256)"

text \<open>The row that \<^verbatim>\<open>newData\<close> uploads for a frame (lines 1328-1339 and 1354-1370)
  and the texel it uploads for the frame's centre frequency (lines 1341-1352 and
  1372-1386).\<close>

definition gl_row :: "bool \<Rightarrow> real list \<Rightarrow> texrow" where
  "gl_row useFloatTexture buffer =
     (if useFloatTexture then FloatRow buffer
      else ByteRow (map (\<lambda>i. toUint8Clamped (Fin ((buffer ! i - minLevel) * (255 / (maxLevel - minLevel)))))
                     [0..<length buffer]))"

definition gl_freq :: "bool \<Rightarrow> real option \<Rightarrow> freqtexel" where
  "gl_freq useFloatTexture bufferCenterFreq =
     (if useFloatTexture then FloatFreq bufferCenterFreq
      else ByteFreq (shr_and_FF bufferCenterFreq 0) (shr_and_FF bufferCenterFreq 8)
             (shr_and_FF bufferCenterFreq 16) (shr_and_FF bufferCenterFreq 24))"

text \<open>\<^verbatim>\<open>newData\<close> of the GPU backend (lines 1307-1391). When the rows are written
  \<^verbatim>\<open>fftSize\<close> is \<^verbatim>\<open>buffer.length\<close>.\<close>

definition waterfallGL_newData :: "bool \<Rightarrow> nat \<Rightarrow> fftBundle \<Rightarrow> waterfallGL \<Rightarrow> waterfallGL" where
  "waterfallGL_newData useFloatTexture hc fftBundle s =
     (let buffer = snd fftBundle;
          bufferCenterFreq = fst fftBundle
      in if length buffer = 0 then s
         else
           let s1 = (if length buffer \<noteq> gl_fftSize s \<or> \<not> useFloatTexture \<and> \<not> gl_intConversionBuffer s
                     then (configureTexture useFloatTexture hc (s\<lparr>gl_fftSize := length buffer\<rparr>))
                            \<lparr>gl_intConversionBuffer := \<not> useFloatTexture\<rparr>
                     else s);
               s2 = (if gl_canvasWidth s1 \<noteq> gl_fftSize s1
                     then s1\<lparr>gl_canvasWidth := gl_fftSize s1, gl_cleared := True\<rparr>
                     else s1)
           in s2\<lparr>gl_bufferTexture := (gl_bufferTexture s2)[gl_slicePtr s2 := gl_row useFloatTexture buffer],
                 gl_historyFreqTexture :=
                   (gl_historyFreqTexture s2)[gl_slicePtr s2 := gl_freq useFloatTexture bufferCenterFreq],
                 gl_slicePtr := mod_index (gl_slicePtr s2 + 1) hc\<rparr>)"


text \<open>
  The fragment shader (lines 1124-1149). \<open>historyFreq\<close> is the frequency it reads from
  a texel of \<^verbatim>\<open>centerFreqHistory\<close>; a byte reads as \<open>byte / 255\<close>, which the shader
  multiplies by 255.
\<close>

definition historyFreq :: "freqtexel \<Rightarrow> real option" where
  "historyFreq t =
     (case t of
        FloatFreq f \<Rightarrow> f
      | ByteFreq r g b a \<Rightarrow>
          Some (((real a / 255 * 255 * 256 + real b / 255 * 255) * 256 + real g / 255 * 255) * 256
                  + real r / 255 * 255))"

text \<open>\<^verbatim>\<open>texture2D(data, shift).r\<close> within a row, for a coordinate in \<open>[0, 1]\<close>: the filter
  is \<^verbatim>\<open>NEAREST\<close> and the wrap mode \<^verbatim>\<open>CLAMP_TO_EDGE\<close>.\<close>

definition sampleRow :: "texrow \<Rightarrow> real \<Rightarrow> real" where
  "sampleRow row u =
     (case row of
        FloatRow xs \<Rightarrow> xs ! min (length xs - 1) (nat \<lfloor>u * real (length xs)\<rfloor>)
      | ByteRow bs \<Rightarrow> real (bs ! min (length bs - 1) (nat \<lfloor>u * real (length bs)\<rfloor>)) / 255)"

text \<open>The colour of a fragment: the fixed colour for ``unknown'', or the gradient's at
  the value sampled. With a frequency that is \<^verbatim>\<open>NaN\<close> the comparisons are false and the
  shader samples at a \<^verbatim>\<open>NaN\<close> coordinate, which GLSL leaves undefined.\<close>

datatype fragment = UnknownColor | Gradient real | Undefined

definition fragmentColor :: "real \<Rightarrow> real \<Rightarrow> texrow \<Rightarrow> freqtexel \<Rightarrow> real \<Rightarrow> fragment" where
  "fragmentColor currentFreq freqScale row texel x =
     (case historyFreq texel of
        None \<Rightarrow> Undefined
      | Some hf \<Rightarrow>
          (let freqOffset = (currentFreq - hf) * freqScale;
               shift_x = x + freqOffset
           in if shift_x < 0 \<or> 1 < shift_x then UnknownColor
              else Gradient (sampleRow row shift_x)))"

text \<open>The uniform \<^verbatim>\<open>freqScale\<close> that \<^verbatim>\<open>beforeDraw\<close> sets (lines 1399-1400).\<close>

definition freqScale :: "waterfall_env \<Rightarrow> real" where
  "freqScale env = 1 / viewBandwidth env"

text \<open>\<^verbatim>\<open>freqToCSSLength\<close> (lines 282-284), without the unit: the canvas of the waterfall
  is laid out \<^verbatim>\<open>freqToCSSLength(bandwidth)\<close> wide (line 1083).\<close>

definition freqToCSSLength :: "spectrum_view \<Rightarrow> real \<Rightarrow> real" where
  "freqToCSSLength s freq = freq * pixelsPerHertz s"

subsection \<open>Example values\<close>

text \<open>A receiver of 1 MHz bandwidth at 100 MHz, shown in a container 500 pixels wide,
  with an FFT of 2048 bins; and the view it gives from the stored zoom 2 and scroll 100.\<close>

definition example_env :: radio_env where
  "example_env = \<lparr>input_rate = 1000000, source_freq = 100000000, offsetWidth = 500, spectrum_fft_length = 2048\<rparr>"

definition example_view :: spectrum_view where
  "example_view = SpectrumView example_browser example_env (Some 2) (Some 100)"

text \<open>A view of the waterfall centred at 100 MHz over 1 MHz, on a canvas laid out 150
  pixels high; and two frames of two bins each, the second captured 200 kHz higher.\<close>

definition example_waterfall_env :: waterfall_env where
  "example_waterfall_env = \<lparr>viewCenterFreq = 100000000, viewBandwidth = 1000000, canvasOffsetHeight = 150\<rparr>"

definition example_frames :: "(waterfall_env \<times> fftBundle) list" where
  "example_frames =
     [(example_waterfall_env, (Some 100000000, [- 60, 30])),
      (example_waterfall_env, (Some 100200000, [30, - 15]))]"

section \<open>Theorems\<close>

subsection \<open>The helper \<^verbatim>\<open>mod\<close>\<close>

lemma js_rem_bounds:
  assumes "0 < b"
  shows "- b < js_rem a b \<and> js_rem a b < b \<and> (0 \<le> a \<longrightarrow> 0 \<le> js_rem a b)"
proof (cases "0 \<le> a")
  case True
  then have q: "js_trunc (a / b) = \<lfloor>a / b\<rfloor>"
    using assms by (simp add: js_trunc_def)
  have "of_int \<lfloor>a / b\<rfloor> \<le> a / b" "a / b < of_int \<lfloor>a / b\<rfloor> + 1"
    by linarith+
  then have "of_int \<lfloor>a / b\<rfloor> * b \<le> a" "a < (of_int \<lfloor>a / b\<rfloor> + 1) * b"
    using assms by (simp_all only: pos_le_divide_eq pos_divide_less_eq)
  then have "b * of_int \<lfloor>a / b\<rfloor> \<le> a" "a < b * of_int \<lfloor>a / b\<rfloor> + b"
    by (simp_all add: algebra_simps)
  then show ?thesis using assms True by (simp add: js_rem_def q)
next
  case False
  then have "a / b < 0" using assms by (simp add: field_simps)
  then have q: "js_trunc (a / b) = \<lceil>a / b\<rceil>"
    by (simp add: js_trunc_def)
  have "a / b \<le> of_int \<lceil>a / b\<rceil>" "of_int \<lceil>a / b\<rceil> - 1 < a / b"
    by linarith+
  then have "a \<le> of_int \<lceil>a / b\<rceil> * b" "(of_int \<lceil>a / b\<rceil> - 1) * b < a"
    using assms by (simp_all only: pos_divide_le_eq pos_less_divide_eq)
  then have "a \<le> b * of_int \<lceil>a / b\<rceil>" "b * of_int \<lceil>a / b\<rceil> < a + b"
    by (simp_all add: algebra_simps)
  then show ?thesis using assms False by (simp add: js_rem_def q)
qed

lemma mod_js_bounds:
  assumes "0 < m"
  shows "0 \<le> mod_js v m \<and> mod_js v m < m"
proof -
  have "0 \<le> js_rem v m + m"
    using js_rem_bounds [OF assms, of v] by simp
  then show ?thesis
    using js_rem_bounds [OF assms, of "js_rem v m + m"] by (simp add: mod_js_def)
qed

lemma js_rem_of_nat:
  assumes "0 < b"
  shows "js_rem (real a) (real b) = real (a mod b)"
proof -
  have "js_trunc (real a / real b) = int (a div b)"
    by (simp add: js_trunc_def floor_divide_of_nat_eq)
  then have "js_rem (real a) (real b) = real a - real b * real (a div b)"
    by (simp add: js_rem_def)
  also have "\<dots> = real (a mod b)"
  proof -
    have "real a = real b * real (a div b) + real (a mod b)"
      by (metis of_nat_add of_nat_mult mult_div_mod_eq)
    then show ?thesis by linarith
  qed
  finally show ?thesis .
qed

lemma mod_js_of_nat:
  assumes "0 < b"
  shows "mod_js (real a) (real b) = real (a mod b)"
proof -
  have "js_rem (real (a mod b) + real b) (real b) = real ((a mod b + b) mod b)"
    using js_rem_of_nat [OF assms, of "a mod b + b"] by simp
  then show ?thesis by (simp add: mod_js_def js_rem_of_nat [OF assms])
qed

lemma mod_index_eq: "0 < b \<Longrightarrow> mod_index a b = a mod b"
  by (simp add: mod_index_def mod_js_of_nat)

text \<open>
  C9. For every real value \<open>v\<close> and every modulus \<open>m > 0\<close>, \<^verbatim>\<open>mod(v, m)\<close> lies in
  \<open>[0, m)\<close>, also for a negative \<open>v\<close>, where \<^verbatim>\<open>%\<close> alone gives a negative result.
  So the slot indices \<^verbatim>\<open>mod(slicePtr + 1, historyCount)\<close> and
  \<^verbatim>\<open>mod(i + slicePtr, sliceCount)\<close> (\<open>p\<close>, \<open>hc\<close> and \<open>n\<close> below) are the naturals
  \<open>(p + 1) mod hc\<close> and \<open>(i + p) mod n\<close>, which are in bounds.
\<close>

theorem mod_js_in_range:
  assumes "0 < m" and "0 < hc" and "0 < n"
  shows "(0 \<le> mod_js v m \<and> mod_js v m < m) \<and>
         mod_js (real (p + 1)) (real hc) = real ((p + 1) mod hc) \<and>
         mod_index (p + 1) hc = (p + 1) mod hc \<and> mod_index (p + 1) hc < hc \<and>
         mod_js (real (i + p)) (real n) = real ((i + p) mod n) \<and>
         mod_index (i + p) n = (i + p) mod n \<and> mod_index (i + p) n < n"
  using assms mod_js_bounds [of m v] mod_js_of_nat [of hc "p + 1"]
    mod_js_of_nat [of n "i + p"]
  by (simp add: mod_index_eq)

text \<open>The witness: \<^verbatim>\<open>mod(-3.5, 3)\<close> is 2.5 where \<^verbatim>\<open>-3.5 % 3\<close> is -0.5; the cursor
  wraps from 1023 to 0 in a history of 1024 slots.\<close>

theorem mod_js_in_range_witness:
  "(0 \<le> mod_js (- 7 / 2) 3 \<and> mod_js (- 7 / 2) 3 < 3) \<and> mod_js (- 7 / 2) 3 = 5 / 2 \<and>
   js_rem (- 7 / 2) 3 = - 1 / 2 \<and>
   mod_index (1023 + 1) 1024 = 0 \<and> mod_index (2 + 5) 3 = 1"
proof -
  have "mod_js (- 7 / 2) 3 = 5 / 2" "js_rem (- 7 / 2) 3 = - 1 / 2"
    by (simp_all add: mod_js_def js_rem_def js_trunc_def)
  then show ?thesis
    using mod_js_in_range [where m = 3 and v = "- 7 / 2" and hc = 1024 and p = 1023
        and n = 3 and i = 2]
      mod_index_eq [of 3 "2 + 5"]
    by simp
qed

subsection \<open>The zoom clamp\<close>

lemma maxZoom_ge_1: "1 \<le> maxZoom env s"
  by (simp add: maxZoom_def)

lemma zoom_changeZoom: "zoom (changeZoom browser env delta cursorX s) = clampedZoom env delta s"
  by (simp add: changeZoom_def rezoomed_def prepare_def Let_def)

text \<open>
  C2. After \<^verbatim>\<open>changeZoom(delta, cursorX)\<close>, for every \<open>delta\<close> and every cursor
  position, the stored zoom is at least 1 and at most
  \<open>max(1, bandwidth / 100000, totalBins / 60)\<close>, where \<open>totalBins\<close> is the length of the
  current spectrum FFT and \<open>bandwidth\<close> is the bandwidth the view holds when the call
  is made.
\<close>

theorem changeZoom_zoom_clamped:
  "1 \<le> zoom (changeZoom browser env delta cursorX s) \<and>
   zoom (changeZoom browser env delta cursorX s)
     \<le> max 1 (max (bandwidth s / 100000) (real (spectrum_fft_length env) / 60))"
proof -
  have "1 \<le> clampedZoom env delta s"
    using maxZoom_ge_1 [of env s] by (simp add: clampedZoom_def)
  moreover have "clampedZoom env delta s \<le> maxZoom env s"
    by (simp add: clampedZoom_def)
  ultimately show ?thesis
    by (simp add: zoom_changeZoom maxZoom_def MAX_ZOOM_BINS_def)
qed

subsection \<open>The cursor-anchored zoom\<close>







lemma example_view_eq:
  "example_view = \<lparr>bandwidth = 1000000, centerFreq = 100000000, leftFreq = 99500000,
      pixelWidth = 500, pixelsPerHertz = 1 / 1000, cacheScrollLeft = 100, zoom = 2,
      fractionalScroll = 0, scrollLeft = 100, scrollStubWidth = 1000,
      storage_zoom = Some 2, storage_scroll = Some 100\<rparr>"
  by (simp add: example_view_def SpectrumView_def Let_def example_env_def or_default_def
      prepare_def example_browser_def mod_js_def js_rem_def js_trunc_def)









subsection \<open>The range of the scroll position\<close>




subsection \<open>Averaging\<close>

lemma length_blend: "length (blend alpha avg buffer) = length buffer"
  by (simp add: blend_def)

lemma nth_blend:
  "i < length buffer \<Longrightarrow> blend alpha avg buffer ! i = avg ! i * (1 - alpha) + buffer ! i * alpha"
  by (simp add: blend_def)

lemma blend_self: "blend alpha buffer buffer = buffer"
  by (rule nth_equalityI) (simp_all add: length_blend nth_blend algebra_simps)










subsection \<open>\<^verbatim>\<open>interpolateColor\<close>\<close>

lemma colorIndex_cases:
  "colorIndex NaN = NaN" "colorIndex PosInf = Fin 3" "colorIndex NegInf = Fin 0"
  "colorIndex (Fin a) = Fin (max 0 (min 3 (of_int \<lfloor>a * 4\<rfloor>)))"
  by (simp_all add: colorIndex_def colorCountForIndex_def colorCountForScale_def colors_def
      signed_inf_def)

lemma clamped_index:
  "max 0 (min 3 (of_int n :: real)) = of_int (max 0 (min 3 n)) \<and> 0 \<le> max 0 (min 3 n) \<and> max 0 (min 3 n) \<le> 3"
  by (simp add: max_def min_def)

lemma colorIndex_in_table:
  assumes "v \<noteq> NaN"
  shows "\<exists>k\<le>3. colorIndex v = Fin (real k)"
proof (cases v)
  case (Fin a)
  define n where "n = max 0 (min 3 \<lfloor>a * 4\<rfloor>)"
  have "colorIndex v = Fin (of_int n)" "0 \<le> n" "n \<le> 3"
    using clamped_index [of "\<lfloor>a * 4\<rfloor>"] by (simp_all add: Fin colorIndex_cases n_def)
  then have "colorIndex v = Fin (real (nat n))" "nat n \<le> 3"
    by simp_all
  then show ?thesis by blast
next
  case PosInf
  have "colorIndex v = Fin (real 3)" by (simp add: PosInf colorIndex_cases)
  then show ?thesis by blast
next
  case NegInf
  have "colorIndex v = Fin (real 0)" by (simp add: NegInf colorIndex_cases)
  then show ?thesis by blast
qed (use assms in simp)

lemma colors_at_nat: "k < 5 \<Longrightarrow> colors_at (Fin (real k)) = Some (colors ! k)"
  by (simp add: colors_at_def colors_def)

lemma interpolateColor_defined:
  assumes "v \<noteq> NaN"
  shows "\<exists>k r g b. k \<le> 3 \<and> colorIndex v = Fin (real k) \<and>
           interpolateColor store v outArray base
             = Inr (outArray[base := r, base + 1 := g, base + 2 := b, base + 3 := store (Fin 255)])"
proof -
  obtain k where k: "k \<le> 3" "colorIndex v = Fin (real k)"
    using colorIndex_in_table [OF assms] by blast
  obtain r0 g0 b0 where t0: "colors ! k = (r0, g0, b0)"
    by (cases "colors ! k") auto
  obtain r1 g1 b1 where t1: "colors ! Suc k = (r1, g1, b1)"
    by (cases "colors ! Suc k") auto
  have c0: "colors_at (Fin (real k)) = Some (r0, g0, b0)"
    using k(1) colors_at_nat [of k] by (simp add: t0)
  have c1: "colors_at (Fin (real k + 1)) = Some (r1, g1, b1)"
    using k(1) colors_at_nat [of "Suc k"] by (simp add: t1 add.commute)
  have "interpolateColor store v outArray base
      = Inr (outArray
          [base := store (mix r0 r1 (js_sub (Fin 1) (js_sub (js_mul v (Fin colorCountForScale)) (Fin (real k))))
                             (js_sub (js_mul v (Fin colorCountForScale)) (Fin (real k)))),
           base + 1 := store (mix g0 g1 (js_sub (Fin 1) (js_sub (js_mul v (Fin colorCountForScale)) (Fin (real k))))
                             (js_sub (js_mul v (Fin colorCountForScale)) (Fin (real k)))),
           base + 2 := store (mix b0 b1 (js_sub (Fin 1) (js_sub (js_mul v (Fin colorCountForScale)) (Fin (real k))))
                             (js_sub (js_mul v (Fin colorCountForScale)) (Fin (real k)))),
           base + 3 := store (Fin 255)])"
    by (simp add: interpolateColor_def Let_def k(2) c0 c1)
  then show ?thesis
    using k by blast
qed

text \<open>
  C10 at \<^verbatim>\<open>NaN\<close>. \<^verbatim>\<open>Math.floor\<close>, \<^verbatim>\<open>Math.min\<close> and \<^verbatim>\<open>Math.max\<close> pass \<^verbatim>\<open>NaN\<close> on,
  so the index is \<^verbatim>\<open>NaN\<close> and not within \<open>[0, colors.length - 2]\<close>; \<^verbatim>\<open>colors[NaN]\<close>
  is \<^verbatim>\<open>undefined\<close>, and reading its component throws before any element of the output,
  the alpha byte too, is written.
\<close>

theorem interpolateColor_NaN_throws:
  "colorIndex NaN = NaN \<and> colors_at (colorIndex NaN) = None \<and>
   interpolateColor store NaN outArray base = Inl TypeError"
  by (simp add: colorIndex_cases colors_at_def interpolateColor_def Let_def)

subsection \<open>The history buffers\<close>





text \<open>One ingest of a non-empty frame, when no texture is reallocated.\<close>

lemma waterfallGL_newData_empty: "waterfallGL_newData uf hc (f, []) s = s"
  by (simp add: waterfallGL_newData_def)








text \<open>The frequency packed into four bytes, as the shader reads it back.\<close>

lemma ToInt32_mod: "ToInt32 (Some a) mod 2 ^ 32 = js_trunc a mod 2 ^ 32"
  by (simp add: ToInt32_def Let_def)

lemma four_bytes:
  fixes t :: int
  shows "((t div 2 ^ 24 mod 256 * 256 + t div 2 ^ 16 mod 256) * 256 + t div 2 ^ 8 mod 256) * 256
           + t div 2 ^ 0 mod 256 = t mod 2 ^ 32"
proof -
  have a: "t mod 2 ^ 32 = 2 ^ 24 * (t div 2 ^ 24 mod 256) + t mod 2 ^ 24"
    using zmod_zmult2_eq [of 256 t "2 ^ 24"] by simp
  have b: "t mod 2 ^ 24 = 2 ^ 16 * (t div 2 ^ 16 mod 256) + t mod 2 ^ 16"
    using zmod_zmult2_eq [of 256 t "2 ^ 16"] by simp
  have c: "t mod 2 ^ 16 = 2 ^ 8 * (t div 2 ^ 8 mod 256) + t mod 2 ^ 8"
    using zmod_zmult2_eq [of 256 t "2 ^ 8"] by simp
  show ?thesis
    unfolding a b c by simp
qed


lemma historyFreq_bytes:
  "historyFreq (gl_freq False (Some a)) = Some (of_int (js_trunc a mod 2 ^ 32))"
proof -
  let ?t = "ToInt32 (Some a)"
  have nn: "0 \<le> ?t div 2 ^ k mod 256" for k
    by simp
  have "historyFreq (gl_freq False (Some a))
      = Some (of_int (((?t div 2 ^ 24 mod 256 * 256 + ?t div 2 ^ 16 mod 256) * 256
                        + ?t div 2 ^ 8 mod 256) * 256 + ?t div 2 ^ 0 mod 256))"
    using nn [of 0] nn [of 8] nn [of 16] nn [of 24]
    by (simp add: historyFreq_def gl_freq_def shr_and_FF_def)
  then show ?thesis
    by (simp only: four_bytes ToInt32_mod)
qed

lemma historyFreq_bytes_exact:
  assumes "a = of_int n" and "0 \<le> n" and "n < 2 ^ 32"
  shows "historyFreq (gl_freq False (Some a)) = Some a"
  using assms by (simp add: historyFreq_bytes js_trunc_def)










text \<open>The 2D backend: one ingest, then any number of them.\<close>

lemma commonBeforeDraw_simps:
  "slices (commonBeforeDraw hc env s) = slices s"
  "slicePtr (commonBeforeDraw hc env s) = slicePtr s"
  "canvasWidth (commonBeforeDraw hc env s) = canvasWidth s"
  "dataToDraw (commonBeforeDraw hc env s) = dataToDraw s"
  "wf_lastDrawnCenterFreq (commonBeforeDraw hc env s) = wf_lastDrawnCenterFreq s"
  by (simp_all add: commonBeforeDraw_def Let_def)

lemma drawPhase_simps:
  "slices (fst (drawPhase env newest w s)) = slices s"
  "slicePtr (fst (drawPhase env newest w s)) = slicePtr s"
  "canvasWidth (fst (drawPhase env newest w s)) = canvasWidth s"
  "canvasHeight (fst (drawPhase env newest w s)) = canvasHeight s"
  by (simp_all add: drawPhase_def Let_def split: option.split prod.split)







subsection \<open>The history after any number of ingests\<close>




subsection \<open>Drift compensation\<close>

lemma paintNewest_member:
  assumes "PutImageData img dx y \<in> set (paintNewest ibuf bcf vf osc)"
  shows "img = ibuf \<and> dx = putX bcf vf osc"
  using assms by (simp add: paintNewest_def)

lemma paintAll_member:
  assumes "PutImageData img dx y \<in> set (paintAll sl ptr height vf osc)"
  shows "\<exists>f. (img, f) \<in> set sl \<and> dx = putX f vf osc"
proof -
  let ?n = "length sl"
  obtain i where i: "i \<in> set (takeWhile (\<lambda>i. \<not> height \<le> ?n - i) (rev [0..<?n]))"
      and p: "PutImageData img dx y
          \<in> set [FillRect (?n - i),
                  PutImageData (fst (sl ! mod_index (i + ptr) ?n))
                    (putX (snd (sl ! mod_index (i + ptr) ?n)) vf osc) (?n - i)]"
    using assms by (auto simp add: paintAll_def Let_def)
  have "i \<in> set (rev [0..<?n])"
    using i by (rule set_takeWhileD [THEN conjunct1])
  then have pos: "0 < ?n" by auto
  then have "mod_index (i + ptr) ?n < ?n"
    by (simp add: mod_index_eq)
  then have "sl ! mod_index (i + ptr) ?n \<in> set sl"
    by simp
  moreover have "img = fst (sl ! mod_index (i + ptr) ?n)"
    "dx = putX (snd (sl ! mod_index (i + ptr) ?n)) vf osc"
    using p by simp_all
  ultimately show ?thesis
    by (metis prod.collapse)
qed

lemma drawPhase_member:
  assumes "PutImageData img dx y \<in> set (snd (drawPhase env (Some (ibuf, bcf)) (Some w) s))"
    and "(ibuf, bcf) \<in> set (slices s)"
  shows "\<exists>f. (img, f) \<in> set (slices s) \<and>
           dx = putX f (viewCenterFreq env) (Some (real w / viewBandwidth env))"
proof (cases "\<not> js_strict_neq (wf_lastDrawnCenterFreq s) (Some (viewCenterFreq env)) \<and> \<not> cleared s")
  case True
  then have "snd (drawPhase env (Some (ibuf, bcf)) (Some w) s)
      = paintNewest ibuf bcf (viewCenterFreq env) (Some (real w / viewBandwidth env))"
    by (simp add: drawPhase_def Let_def)
  then show ?thesis
    using assms paintNewest_member by metis
next
  case False
  then have "snd (drawPhase env (Some (ibuf, bcf)) (Some w) s)
      = paintAll (slices s) (slicePtr s) (canvasHeight s) (viewCenterFreq env)
          (Some (real w / viewBandwidth env))"
    by (auto simp add: drawPhase_def Let_def)
  then show ?thesis
    using assms(1) paintAll_member by metis
qed

lemma performDraw_member:
  assumes "dataToDraw s = Some (bcf, buffer)" and "buffer \<noteq> []"
    and "performDraw hc env s = Inr (s', ops)"
    and "PutImageData img dx y \<in> set ops"
  shows "\<exists>f. (img, f) \<in> set (slices s') \<and>
           dx = putX f (viewCenterFreq env) (Some (real (length buffer) / viewBandwidth env))"
proof -
  let ?s1 = "commonBeforeDraw hc env s"
  let ?s2 = "if canvasWidth ?s1 \<noteq> length buffer
             then ?s1\<lparr>canvasWidth := length buffer, cleared := True, slices := [], slicePtr := 0\<rparr>
             else ?s1"
  have d: "dataToDraw ?s1 = Some (bcf, buffer)"
    by (simp add: commonBeforeDraw_simps assms(1))
  obtain ibuf s3 where r: "drawPhase env (Some (ibuf, bcf)) (Some (length buffer)) s3 = (s', ops)"
      and mem: "(ibuf, bcf) \<in> set (slices s3)"
  proof (cases "length (slices ?s2) < hc")
    case True
    then obtain ibuf where
      "drawPhase env (Some (ibuf, bcf)) (Some (length buffer))
                     (?s2\<lparr>slices := slices ?s2 @ [(ibuf, bcf)]\<rparr>) = (s', ops)"
      using assms(2,3) d
      by (auto simp add: performDraw_def Let_def split: sum.splits if_splits)
    then show ?thesis
      using that [of ibuf "?s2\<lparr>slices := slices ?s2 @ [(ibuf, bcf)]\<rparr>"] by simp
  next
    case False
    then obtain ibuf where
      "drawPhase env (Some (ibuf, bcf)) (Some (length buffer))
                     (?s2\<lparr>slices := (slices ?s2)[slicePtr ?s2 := (ibuf, bcf)],
                          slicePtr := mod_index (slicePtr ?s2 + 1) hc\<rparr>) = (s', ops)"
      and "slicePtr ?s2 < length (slices ?s2)"
      using assms(2,3) d
      by (auto simp add: performDraw_def Let_def split: sum.splits if_splits)
    then show ?thesis
      using that [of ibuf "?s2\<lparr>slices := (slices ?s2)[slicePtr ?s2 := (ibuf, bcf)],
                          slicePtr := mod_index (slicePtr ?s2 + 1) hc\<rparr>"]
      by (simp add: set_update_memI)
  qed
  have "PutImageData img dx y \<in> set (snd (drawPhase env (Some (ibuf, bcf)) (Some (length buffer)) s3))"
    using assms(4) r by (metis snd_conv)
  then obtain f where "(img, f) \<in> set (slices s3)"
      "dx = putX f (viewCenterFreq env) (Some (real (length buffer) / viewBandwidth env))"
    using drawPhase_member [OF _ mem] by blast
  moreover have "slices s' = slices s3"
    using r drawPhase_simps(1) [of env "Some (ibuf, bcf)" "Some (length buffer)" s3]
    by (metis fst_conv)
  ultimately show ?thesis by auto
qed

lemma Math_round_near: "\<bar>of_int (Math_round x) - x\<bar> \<le> 1 / 2"
  unfolding Math_round_def by linarith

lemma fragmentColor_shifted:
  assumes "viewBandwidth env \<noteq> 0" and "historyFreq texel = Some f1"
  shows "fragmentColor (viewCenterFreq env) (freqScale env) row texel
           (u + (f1 - viewCenterFreq env) / viewBandwidth env)
         = (if u < 0 \<or> 1 < u then UnknownColor else Gradient (sampleRow row u))"
proof -
  have eq: "u + (f1 - viewCenterFreq env) / viewBandwidth env
          + (viewCenterFreq env - f1) * (1 / viewBandwidth env) = u"
    using assms(1) by (simp add: field_simps)
  show ?thesis
    unfolding fragmentColor_def freqScale_def Let_def assms(2) option.case eq ..
qed

text \<open>
  C6, as the code has it. On the GPU backend a fragment at \<open>u + (f1 - f2) / bandwidth\<close>
  shows what the row captured at \<open>f1\<close> holds at \<open>u\<close> (and the colour for ``unknown''
  outside the row), \<open>f2\<close> being the view's centre frequency: the row is displaced by
  \<open>(f1 - f2) / bandwidth\<close> of the canvas, which for a canvas laid out
  \<^verbatim>\<open>freqToCSSLength(bandwidth)\<close> wide is \<open>(f1 - f2) * pixelsPerHertz\<close>. On the 2D
  backend, in a draw that ingests a frame of \<open>w\<close> bins, every row painted is a slice
  of the history and is put at the column \<^verbatim>\<open>Math.round((f1 - f2) * (w / bandwidth))\<close>,
  the whole column nearest to \<open>(f1 - f2) * (w / bandwidth)\<close>, with \<open>f1\<close> the
  frequency stored with the slice.
\<close>

theorem drift_compensation:
  assumes "viewBandwidth env \<noteq> 0"
    and "historyFreq texel = Some f1"
    and "bandwidth view = viewBandwidth env"
    and "dataToDraw s = Some (bcf, buffer)" and "buffer \<noteq> []"
    and "performDraw hc env s = Inr (s', ops)"
    and "PutImageData img dx y \<in> set ops"
  shows
    "fragmentColor (viewCenterFreq env) (freqScale env) row texel
         (u + (f1 - viewCenterFreq env) / viewBandwidth env)
       = (if u < 0 \<or> 1 < u then UnknownColor else Gradient (sampleRow row u)) \<and>
     (f1 - viewCenterFreq env) / viewBandwidth env * freqToCSSLength view (bandwidth view)
       = (f1 - viewCenterFreq env) * pixelsPerHertz view \<and>
     (\<exists>f. (img, f) \<in> set (slices s') \<and>
          dx = (case f of
                  None \<Rightarrow> None
                | Some f2 \<Rightarrow>
                    Some (of_int (Math_round ((f2 - viewCenterFreq env)
                                     * (real (length buffer) / viewBandwidth env))))) \<and>
          (case f of
             None \<Rightarrow> True
           | Some f2 \<Rightarrow>
               \<bar>of_int (Math_round ((f2 - viewCenterFreq env) * (real (length buffer) / viewBandwidth env)))
                  - (f2 - viewCenterFreq env) * (real (length buffer) / viewBandwidth env)\<bar> \<le> 1 / 2))"
proof -
  have css: "(f1 - viewCenterFreq env) / viewBandwidth env * freqToCSSLength view (bandwidth view)
       = (f1 - viewCenterFreq env) * pixelsPerHertz view"
    using assms(1) by (simp add: freqToCSSLength_def assms(3))
  obtain f where f: "(img, f) \<in> set (slices s')"
      "dx = putX f (viewCenterFreq env) (Some (real (length buffer) / viewBandwidth env))"
    using performDraw_member [OF assms(4-7)] by blast
  have "dx = (case f of
                  None \<Rightarrow> None
                | Some f2 \<Rightarrow>
                    Some (of_int (Math_round ((f2 - viewCenterFreq env)
                                     * (real (length buffer) / viewBandwidth env)))))"
    by (simp add: f(2) putX_def split: option.split)
  moreover have "case f of
             None \<Rightarrow> True
           | Some f2 \<Rightarrow>
               \<bar>of_int (Math_round ((f2 - viewCenterFreq env) * (real (length buffer) / viewBandwidth env)))
                  - (f2 - viewCenterFreq env) * (real (length buffer) / viewBandwidth env)\<bar> \<le> 1 / 2"
    using Math_round_near by (cases f) simp_all
  ultimately show ?thesis
    using fragmentColor_shifted [OF assms(1,2)] css f(1) by blast
qed

lemma example_performDraw: "performDraw (historyCount 0) example_waterfall_env
       ((build2D 300 150)\<lparr>dataToDraw := Some (Some 100200000, [- 60, 30])\<rparr>)
     = Inr (\<lparr>canvasWidth = 2, canvasHeight = 150, cleared = False,
              slices = [([0, 0, 0, 255, 255, 0, 0, 255], Some 100200000)],
              slicePtr = 0, wf_lastDrawnCenterFreq = Some 100000000, dataToDraw = None\<rparr>,
            [FillRect 1, PutImageData [0, 0, 0, 255, 255, 0, 0, 255] (Some 0) 1, FillRectBelow])"
  by code_simp

theorem drift_compensation_witness:
  "fragmentColor 100000000 (1 / 1000000) (FloatRow [- 60, 30]) (FloatFreq (Some 100200000))
       (1 / 2 + 1 / 5) = Gradient 30 \<and>
   (100200000 - 100000000) / 1000000 * freqToCSSLength example_view 1000000
       = (100200000 - 100000000) * pixelsPerHertz example_view \<and>
   (\<exists>f. ([0, 0, 0, 255, 255, 0, 0, 255], f)
          \<in> set [([0, 0, 0, 255, 255, 0, 0, 255], Some (100200000 :: real))] \<and>
        Some (0 :: real) = (case f of None \<Rightarrow> None
                 | Some f2 \<Rightarrow> Some (of_int (Math_round ((f2 - 100000000) * (2 / 1000000))))))"
proof -
  have a: "viewBandwidth example_waterfall_env \<noteq> 0" "viewBandwidth example_waterfall_env = 1000000" "viewCenterFreq example_waterfall_env = 100000000"
    "freqScale example_waterfall_env = 1 / 1000000"
    by (simp_all add: example_waterfall_env_def freqScale_def)
  have b: "historyFreq (FloatFreq (Some 100200000)) = Some 100200000"
    by (simp add: historyFreq_def)
  have c: "bandwidth example_view = viewBandwidth example_waterfall_env" "bandwidth example_view = 1000000"
    by (simp_all add: example_view_eq example_waterfall_env_def)
  have d: "dataToDraw ((build2D 300 150)\<lparr>dataToDraw := Some (Some 100200000, [- 60, 30])\<rparr>)
             = Some (Some 100200000, [- 60, 30])" "[- 60, 30 :: real] \<noteq> []"
    by simp_all
  have e: "PutImageData [0, 0, 0, 255, 255, 0, 0, 255] (Some 0) 1
     \<in> set [FillRect 1, PutImageData [0, 0, 0, 255, 255, 0, 0, 255] (Some 0) 1, FillRectBelow]"
    by simp
  have s: "sampleRow (FloatRow [- 60, 30]) (1 / 2) = 30"
    by (simp add: sampleRow_def)
  show ?thesis
    using drift_compensation [OF a(1) b c(1) d example_performDraw e, of "FloatRow [- 60, 30]" "1 / 2"]
    by (simp add: a s c(2))
qed

text \<open>
  C6 as stated fails on the 2D backend, which paints whole columns. A row captured
  200 kHz above the view's centre, in a frame of two bins over 1 MHz, is put at
  column 0, where \<open>(f1 - f2) * (w / bandwidth)\<close> is 0.4 of a column and
  \<open>(f1 - f2) * pixelsPerHertz\<close> is 200 pixels of the example view.
\<close>

theorem drift_compensation_counterexample:
  "performDraw (historyCount 0) example_waterfall_env
       ((build2D 300 150)\<lparr>dataToDraw := Some (Some 100200000, [- 60, 30])\<rparr>)
     = Inr (\<lparr>canvasWidth = 2, canvasHeight = 150, cleared = False,
              slices = [([0, 0, 0, 255, 255, 0, 0, 255], Some 100200000)],
              slicePtr = 0, wf_lastDrawnCenterFreq = Some 100000000, dataToDraw = None\<rparr>,
            [FillRect 1, PutImageData [0, 0, 0, 255, 255, 0, 0, 255] (Some 0) 1, FillRectBelow]) \<and>
   (100200000 - viewCenterFreq example_waterfall_env) * (2 / viewBandwidth example_waterfall_env) = 2 / 5 \<and>
   (100200000 - viewCenterFreq example_waterfall_env) * pixelsPerHertz example_view = 200"
proof -
  have "(100200000 - viewCenterFreq example_waterfall_env) * (2 / viewBandwidth example_waterfall_env) = 2 / 5"
    "(100200000 - viewCenterFreq example_waterfall_env) * pixelsPerHertz example_view = 200"
    by (simp_all add: example_waterfall_env_def example_view_eq)
  with example_performDraw show ?thesis by (intro conjI)
qed

subsection \<open>Frames of length zero\<close>

lemma spectrumGL_newData_empty: "spectrumGL_newData alpha (f, []) st = st"
  by (simp add: spectrumGL_newData_def)

text \<open>
  C7 at a frame of length zero. The GPU backends return at once and change nothing.
  The 2D backend of the spectrum plot replaces the average buffer by an empty one; the
  2D backend of the waterfall empties the history and resets \<^verbatim>\<open>slicePtr\<close> and the
  canvas width before it returns at line 1444.
\<close>

theorem empty_frame_changes_2D_state:
  "spectrumGL_newData alpha (f, []) st = st \<and>
   waterfallGL_newData uf hc (f, []) g = g \<and>
   spectrum2D_newData (1 / 2) (Some 100, [1, 2, 3]) SpectrumPlot
     = \<lparr>averageBuffer = Some [1, 2, 3], lastDrawnCenterFreq = Some 100\<rparr> \<and>
   spectrum2D_newData (1 / 2) (Some 100, [])
       \<lparr>averageBuffer = Some [1, 2, 3], lastDrawnCenterFreq = Some 100\<rparr>
     = \<lparr>averageBuffer = Some [], lastDrawnCenterFreq = Some 100\<rparr> \<and>
   waterfall2D_ingest (historyCount 0) example_frames (build2D 300 150)
     = Inr \<lparr>canvasWidth = 2, canvasHeight = 150, cleared = False,
            slices = [([0, 0, 0, 255, 255, 0, 0, 255], Some 100000000),
                      ([255, 0, 0, 255, 0, 200, 255, 255], Some 100200000)],
            slicePtr = 0, wf_lastDrawnCenterFreq = Some 100000000, dataToDraw = None\<rparr> \<and>
   waterfall2D_newData (historyCount 0) example_waterfall_env (Some 100200000, [])
       \<lparr>canvasWidth = 2, canvasHeight = 150, cleared = False,
        slices = [([0, 0, 0, 255, 255, 0, 0, 255], Some 100000000),
                  ([255, 0, 0, 255, 0, 200, 255, 255], Some 100200000)],
        slicePtr = 0, wf_lastDrawnCenterFreq = Some 100000000, dataToDraw = None\<rparr>
     = Inr (\<lparr>canvasWidth = 0, canvasHeight = 150, cleared = True, slices = [],
             slicePtr = 0, wf_lastDrawnCenterFreq = Some 100000000,
             dataToDraw = Some (Some 100200000, [])\<rparr>, [])"
proof -
  have a: "spectrum2D_newData (1 / 2) (Some 100, [1, 2, 3]) SpectrumPlot
     = \<lparr>averageBuffer = Some [1, 2, 3], lastDrawnCenterFreq = Some 100\<rparr>"
    by (simp add: spectrum2D_newData_def commonNewData_def SpectrumPlot_def Let_def blend_self)
  have b: "spectrum2D_newData (1 / 2) (Some 100, [])
       \<lparr>averageBuffer = Some [1, 2, 3], lastDrawnCenterFreq = Some 100\<rparr>
     = \<lparr>averageBuffer = Some [], lastDrawnCenterFreq = Some 100\<rparr>"
    by (simp add: spectrum2D_newData_def commonNewData_def Let_def blend_self)
  have c: "waterfall2D_ingest (historyCount 0) example_frames (build2D 300 150)
     = Inr \<lparr>canvasWidth = 2, canvasHeight = 150, cleared = False,
            slices = [([0, 0, 0, 255, 255, 0, 0, 255], Some 100000000),
                      ([255, 0, 0, 255, 0, 200, 255, 255], Some 100200000)],
            slicePtr = 0, wf_lastDrawnCenterFreq = Some 100000000, dataToDraw = None\<rparr>"
    by code_simp
  have d: "waterfall2D_newData (historyCount 0) example_waterfall_env (Some 100200000, [])
       \<lparr>canvasWidth = 2, canvasHeight = 150, cleared = False,
        slices = [([0, 0, 0, 255, 255, 0, 0, 255], Some 100000000),
                  ([255, 0, 0, 255, 0, 200, 255, 255], Some 100200000)],
        slicePtr = 0, wf_lastDrawnCenterFreq = Some 100000000, dataToDraw = None\<rparr>
     = Inr (\<lparr>canvasWidth = 0, canvasHeight = 150, cleared = True, slices = [],
             slicePtr = 0, wf_lastDrawnCenterFreq = Some 100000000,
             dataToDraw = Some (Some 100200000, [])\<rparr>, [])"
    by code_simp
  show ?thesis
    by (simp only: spectrumGL_newData_empty waterfallGL_newData_empty a b c d simp_thms)
qed

text \<open>The GPU backends at a frame of length zero, on their initial states.\<close>

theorem empty_frame_changes_2D_state_witness:
  "spectrumGL_newData (1 / 2) (Some 100200000, []) (SpectrumPlot, spectrumGL_build 2)
     = (SpectrumPlot, spectrumGL_build 2) \<and>
   waterfallGL_newData False (historyCount 0) (Some 100200000, []) (buildGL False (historyCount 0) 2 300)
     = buildGL False (historyCount 0) 2 300"
  using empty_frame_changes_2D_state
    [of "1 / 2" "Some 100200000" "(SpectrumPlot, spectrumGL_build 2)" False "historyCount 0"
        "buildGL False (historyCount 0) 2 300"]
  by simp


end
